theory Spec2Isabelle
  imports Complex_Main
begin

section \<open>Text, JSON error objects and the frames written to the sink\<close>

text \<open>
  JavaScript strings are modelled as \<open>string\<close>: a list of 8-bit code units, so the model
  covers text whose code units lie below 256. The streaming handlers decode the upstream
  bytes with a streaming \<open>TextDecoder\<close>; a read is modelled by the text it decodes to.
\<close>

datatype jval = JString string | JBool bool | JObject "(string \<times> jval) list"

type_synonym jobj = "(string \<times> jval) list"

definition hex_digit :: "nat \<Rightarrow> char" where
  "hex_digit n = (if n < 10 then char_of (48 + n) else char_of (87 + n))"

definition json_escape :: "char \<Rightarrow> string" where
  "json_escape c =
     (if c = CHR 0x22 then [CHR 0x5C, CHR 0x22]
      else if c = CHR 0x5C then [CHR 0x5C, CHR 0x5C]
      else if c = CHR 0x08 then [CHR 0x5C, CHR ''b'']
      else if c = CHR 0x0C then [CHR 0x5C, CHR ''f'']
      else if c = CHR 0x0A then [CHR 0x5C, CHR ''n'']
      else if c = CHR 0x0D then [CHR 0x5C, CHR ''r'']
      else if c = CHR 0x09 then [CHR 0x5C, CHR ''t'']
      else if (of_char c :: nat) < 32
        then [CHR 0x5C, CHR ''u'', CHR ''0'', CHR ''0'',
              hex_digit (of_char c div 16), hex_digit (of_char c mod 16)]
      else [c])"

definition json_quote :: "string \<Rightarrow> string" where
  "json_quote s = [CHR 0x22] @ concat (map json_escape s) @ [CHR 0x22]"

fun json_value :: "jval \<Rightarrow> string"
  and json_members :: "(string \<times> jval) list \<Rightarrow> string" where
  "json_value (JString s) = json_quote s"
| "json_value (JBool b) = (if b then ''true'' else ''false'')"
| "json_value (JObject kvs) = ''{'' @ json_members kvs @ ''}''"
| "json_members [] = []"
| "json_members ((k, v) # kvs) =
     json_quote k @ '':'' @ json_value v @ (if kvs = [] then [] else '','' @ json_members kvs)"

definition JSON_stringify :: "jobj \<Rightarrow> string" where
  "JSON_stringify obj = json_value (JObject obj)"

fun show_nat :: "nat \<Rightarrow> string" where
  "show_nat n =
     (if n < 10 then [char_of (48 + n)]
      else show_nat (n div 10) @ [char_of (48 + n mod 10)])"

text \<open>
  Every write to the downstream sink is recorded with the statement of the source that
  made it; \<open>bytes_of\<close> gives the text that statement writes.
  \<^item> \<open>RawChunk\<close>: \<^verbatim>\<open>res.write(chunk)\<close> (Node handler, data listener);
  \<^item> \<open>Forwarded\<close>: \<^verbatim>\<open>writer.write(encoder.encode(line + '\n\n'))\<close>;
  \<^item> \<open>Wrapped\<close>: \<^verbatim>\<open>writer.write(encoder.encode(`data: ${line}\n\n`))\<close>, also used by the
    end-of-data flush of the carry-over buffer;
  \<^item> \<open>ErrorFrame\<close>: \<^verbatim>\<open>`data: ${JSON.stringify({error: true, ...})}\n\n`\<close>;
  \<^item> \<open>DoneMarker\<close>: \<^verbatim>\<open>'data: [DONE]\n\n'\<close>.

  \<open>DoneMarker\<close> is the relay's own terminator; text forwarded from the upstream may
  spell the same bytes and is still a \<open>RawChunk\<close> or a \<open>Forwarded\<close> line.
\<close>

datatype sink_write =
    RawChunk string
  | Forwarded string
  | Wrapped string
  | ErrorFrame jobj
  | DoneMarker

fun bytes_of :: "sink_write \<Rightarrow> string" where
  "bytes_of (RawChunk chunk) = chunk"
| "bytes_of (Forwarded line) = line @ ''\<newline>\<newline>''"
| "bytes_of (Wrapped line) = ''data: '' @ line @ ''\<newline>\<newline>''"
| "bytes_of (ErrorFrame obj) = ''data: '' @ JSON_stringify obj @ ''\<newline>\<newline>''"
| "bytes_of DoneMarker = ''data: [DONE]\<newline>\<newline>''"

text \<open>
  The line a data frame carries, without the prefix the relay prepended itself
  (a forwarded line is carried whole).
\<close>

fun payload :: "sink_write \<Rightarrow> string list" where
  "payload (Forwarded line) = [line]"
| "payload (Wrapped line) = [line]"
| "payload _ = []"

definition data_payloads :: "sink_write list \<Rightarrow> string list" where
  "data_payloads ws = concat (map payload ws)"

section \<open>Line reassembly of the edge relay\<close>

definition is_js_whitespace :: "char \<Rightarrow> bool" where
  "is_js_whitespace c \<longleftrightarrow>
     c = CHR 0x09 \<or> c = CHR 0x0A \<or> c = CHR 0x0B \<or> c = CHR 0x0C \<or> c = CHR 0x0D \<or>
     c = CHR 0x20 \<or> c = CHR 0xA0"

definition js_trim :: "string \<Rightarrow> string" where
  "js_trim s = rev (dropWhile is_js_whitespace (rev (dropWhile is_js_whitespace s)))"

definition startsWith :: "string \<Rightarrow> string \<Rightarrow> bool" where
  "startsWith s p \<longleftrightarrow> take (length p) s = p"

text \<open>\<^verbatim>\<open>textChunk.split('\n')\<close>: never empty; the empty text splits into one empty line.\<close>

fun split_nl :: "string \<Rightarrow> string list" where
  "split_nl [] = [[]]"
| "split_nl (c # cs) =
     (if c = CHR 0x0A then [] # split_nl cs
      else (c # hd (split_nl cs)) # tl (split_nl cs))"

text \<open>The body of \<^verbatim>\<open>for (const line of lines)\<close>.\<close>

fun process_lines :: "string list \<Rightarrow> sink_write list" where
  "process_lines [] = []"
| "process_lines (line # lines) =
     (if js_trim line = [] then process_lines lines
      else if startsWith line ''data:'' then Forwarded line # process_lines lines
      else Wrapped line # process_lines lines)"

text \<open>
  The \<^verbatim>\<open>while (true)\<close> loop over the reads that deliver a chunk, from the carry-over
  \<open>incompleteChunk\<close>: the writes it makes and the carry-over it leaves.
  \<^verbatim>\<open>lines.pop() || ''\<close> is the last element of the split, which always exists.
\<close>

fun read_loop :: "string \<Rightarrow> string list \<Rightarrow> sink_write list \<times> string" where
  "read_loop incompleteChunk [] = ([], incompleteChunk)"
| "read_loop incompleteChunk (val # reads) =
     (let textChunk = incompleteChunk @ val;
          lines = split_nl textChunk;
          incompleteChunk' = last lines;
          lines' = butlast lines;
          (ws, final) = read_loop incompleteChunk' reads
      in (process_lines lines' @ ws, final))"

definition flush_remaining :: "string \<Rightarrow> sink_write list" where
  "flush_remaining incompleteChunk =
     (if incompleteChunk \<noteq> [] then [Wrapped incompleteChunk] else [])"

text \<open>
  The \<^verbatim>\<open>try / catch / finally\<close> around the loop. The upstream body delivers the chunks
  \<open>reads\<close> and then either signals end-of-data (\<open>None\<close>) or the read throws with a
  message (\<open>Some msg\<close>). The result is the writes made and whether the writer was closed.
  Writes to the sink are taken to succeed.
\<close>

definition stream_error_frame :: "string \<Rightarrow> sink_write" where
  "stream_error_frame msg =
     ErrorFrame [(''error'', JBool True),
                 (''message'', JString (''Stream processing error: '' @ msg))]"

definition relay_body :: "string list \<Rightarrow> string option \<Rightarrow> sink_write list \<times> bool" where
  "relay_body reads failure =
     (let (ws, incompleteChunk) = read_loop [] reads
      in case failure of
           None \<Rightarrow> (ws @ flush_remaining incompleteChunk @ [DoneMarker], True)
         | Some msg \<Rightarrow> (ws @ [stream_error_frame msg], True))"


section \<open>Request bodies and the parameter normalizers\<close>

text \<open>
  A property of the parsed request body is absent (\<open>Undefined\<close>), \<open>null\<close> or a value of
  the type the data model gives the field; numbers are rationals. The source tells the
  three apart (\<^verbatim>\<open>=== undefined\<close>, \<^verbatim>\<open>=== null\<close>, truthiness). Properties other than the
  nine below pass through the edge handler untouched and are not modelled.
\<close>

datatype 'a field = Undefined | Null | Val 'a

type_synonym message = "string \<times> string"

record body =
  model :: "string field"
  messages :: "message list field"
  max_tokens :: "rat field"
  temperature :: "rat field"
  top_p :: "rat field"
  top_k :: "rat field"
  presence_penalty :: "rat field"
  frequency_penalty :: "rat field"
  stream :: "bool field"

text \<open>Truthiness of a number and of a string; \<^verbatim>\<open>x || d\<close>; \<^verbatim>\<open>if (x === undefined) x = d\<close>.\<close>

fun truthy_number :: "rat field \<Rightarrow> bool" where
  "truthy_number (Val x) = (x \<noteq> 0)"
| "truthy_number _ = False"

fun truthy_string :: "string field \<Rightarrow> bool" where
  "truthy_string (Val x) = (x \<noteq> [])"
| "truthy_string _ = False"

definition js_or :: "rat field \<Rightarrow> rat \<Rightarrow> rat field" where
  "js_or x d = (if truthy_number x then x else Val d)"

fun default_to :: "'a \<Rightarrow> 'a field \<Rightarrow> 'a field" where
  "default_to d Undefined = Val d"
| "default_to d v = v"

text \<open>
  \<^verbatim>\<open>Math.min(Math.max(1, v), hi)\<close>. \<open>ToNumber\<close> of \<open>null\<close> is 0 and of \<open>undefined\<close> is NaN
  (\<open>None\<close>); NaN is contagious, and \<open>JSON.stringify\<close> writes it as \<open>null\<close>.
\<close>

fun ToNumber :: "rat field \<Rightarrow> rat option" where
  "ToNumber Undefined = None"
| "ToNumber Null = Some 0"
| "ToNumber (Val x) = Some x"

fun Math_max :: "rat option \<Rightarrow> rat option \<Rightarrow> rat option" where
  "Math_max (Some a) (Some b) = Some (max a b)"
| "Math_max _ _ = None"

fun Math_min :: "rat option \<Rightarrow> rat option \<Rightarrow> rat option" where
  "Math_min (Some a) (Some b) = Some (min a b)"
| "Math_min _ _ = None"

fun number_field :: "rat option \<Rightarrow> rat field" where
  "number_field (Some x) = Val x"
| "number_field None = Null"

definition clamp_max_tokens :: "rat \<Rightarrow> rat field \<Rightarrow> rat field" where
  "clamp_max_tokens hi v = number_field (Math_min (Math_max (Some 1) (ToNumber v)) (Some hi))"

text \<open>The edge handler, from \<^verbatim>\<open>requestBody.stream = true\<close> to the clamp (ceiling 8192).\<close>

definition edge_normalize :: "body \<Rightarrow> body" where
  "edge_normalize requestBody =
     (let b = requestBody\<lparr>stream := Val True\<rparr>;
          b = b\<lparr>max_tokens := default_to 4008 (max_tokens b)\<rparr>;
          b = b\<lparr>top_p := default_to 1 (top_p b)\<rparr>;
          b = b\<lparr>top_k := default_to 40 (top_k b)\<rparr>;
          b = b\<lparr>presence_penalty := default_to 0 (presence_penalty b)\<rparr>;
          b = b\<lparr>frequency_penalty := default_to 0 (frequency_penalty b)\<rparr>;
          b = b\<lparr>temperature := default_to (6 / 10) (temperature b)\<rparr>
      in b\<lparr>max_tokens := clamp_max_tokens 8192 (max_tokens b)\<rparr>)"


text \<open>
  The Node streaming handler builds a fresh object \<open>cleanedParams\<close> (ceiling 40000) and
  then deletes every key whose value is \<open>undefined\<close> or \<open>null\<close>.
\<close>

fun remove_null :: "'a field \<Rightarrow> 'a field" where
  "remove_null Null = Undefined"
| "remove_null v = v"

definition delete_nullish :: "body \<Rightarrow> body" where
  "delete_nullish p =
     \<lparr>model = remove_null (model p), messages = remove_null (messages p),
      max_tokens = remove_null (max_tokens p), temperature = remove_null (temperature p),
      top_p = remove_null (top_p p), top_k = remove_null (top_k p),
      presence_penalty = remove_null (presence_penalty p),
      frequency_penalty = remove_null (frequency_penalty p),
      stream = remove_null (stream p)\<rparr>"

definition cleanedParams :: "body \<Rightarrow> body" where
  "cleanedParams requestBody0 =
     (let requestBody = (if stream requestBody0 = Undefined
                         then requestBody0\<lparr>stream := Val True\<rparr> else requestBody0);
          originalMaxTokens = js_or (max_tokens requestBody) 4008;
          validatedMaxTokens = clamp_max_tokens 40000 originalMaxTokens
      in delete_nullish
           \<lparr>model = model requestBody, messages = messages requestBody,
            max_tokens = validatedMaxTokens,
            temperature = default_to (6 / 10) (temperature requestBody),
            top_p = default_to 1 (top_p requestBody),
            top_k = default_to 40 (top_k requestBody),
            presence_penalty = default_to 0 (presence_penalty requestBody),
            frequency_penalty = default_to 0 (frequency_penalty requestBody),
            stream = Val True\<rparr>)"



section \<open>Requests, responses and the upstream\<close>

text \<open>
  The request body as the handler obtains it: parsing throws with a message, or yields
  \<open>null\<close> / \<open>undefined\<close> (reading a property of it throws a \<open>TypeError\<close> with the given
  message), or yields an object.
\<close>

datatype raw_body = Malformed string | Nullish string | Parsed body

record http_request =
  req_method :: string
  req_body :: raw_body

text \<open>
  What the caller receives. \<open>resp_json\<close> is the body of a non-streaming response,
  \<open>resp_writes\<close> the writes to the event stream, \<open>resp_closed\<close> whether the response was
  ended (\<^verbatim>\<open>res.end()\<close>, \<^verbatim>\<open>writer.close()\<close>, or a complete non-streaming response).
  \<open>upstream_request\<close> is the payload given to \<^verbatim>\<open>fetch\<close>, \<open>None\<close> when the upstream was
  never contacted.
\<close>

record response =
  resp_status :: nat
  resp_headers :: "(string \<times> string) list"
  resp_json :: "jobj option"
  resp_writes :: "sink_write list"
  resp_closed :: bool
  upstream_request :: "body option"
  upstream_destroyed :: bool

text \<open>
  The outcome of \<^verbatim>\<open>fetch\<close>: it rejects with a message, or resolves to a response with a
  status, a status text and the result of \<^verbatim>\<open>response.text()\<close> (\<open>None\<close> when that throws),
  or resolves to a response whose \<open>body\<close> is \<open>null\<close>, with a status, a status text and the
  message of the \<open>TypeError\<close> that reading \<^verbatim>\<open>body.getReader\<close> raises; the text of such a
  response is empty. \<open>node-fetch\<close> gives every response a body stream, so the Node handler
  meets the last outcome as a response whose body delivers the given events.
\<close>

datatype fetch_result =
    FetchRejects string
  | FetchResponse nat string "string option"
  | NullBody nat string string

definition response_ok :: "nat \<Rightarrow> bool" where
  "response_ok st \<longleftrightarrow> 200 \<le> st \<and> st \<le> 299"

definition plain_response ::
  "nat \<Rightarrow> (string \<times> string) list \<Rightarrow> jobj option \<Rightarrow> response" where
  "plain_response st hs obj =
     \<lparr>resp_status = st, resp_headers = hs, resp_json = obj, resp_writes = [],
      resp_closed = True, upstream_request = None, upstream_destroyed = False\<rparr>"

definition falsy_key :: "string option \<Rightarrow> bool" where
  "falsy_key apiKey \<longleftrightarrow> apiKey = None \<or> apiKey = Some []"

section \<open>The edge streaming handler\<close>

definition json_headers :: "(string \<times> string) list" where
  "json_headers =
     [(''Content-Type'', ''application/json''), (''Access-Control-Allow-Origin'', ''*'')]"

definition edge_stream_headers :: "(string \<times> string) list" where
  "edge_stream_headers =
     [(''Content-Type'', ''text/event-stream''),
      (''Cache-Control'', ''no-cache, no-transform''),
      (''Connection'', ''keep-alive''),
      (''Access-Control-Allow-Origin'', ''*'')]"

text \<open>
  The background task: the call to the upstream, the answer to a response that is not
  ok, the relay of the body, and the outer \<^verbatim>\<open>catch\<close>, which handles a rejected \<^verbatim>\<open>fetch\<close>
  and the throw of \<^verbatim>\<open>fireworksResponse.body.getReader()\<close> on a body that is \<open>null\<close>.
\<close>

definition edge_background ::
  "fetch_result \<Rightarrow> string list \<Rightarrow> string option \<Rightarrow> sink_write list \<times> bool" where
  "edge_background fireworksResponse reads failure =
     (case fireworksResponse of
        FetchRejects msg \<Rightarrow>
          ([ErrorFrame [(''error'', JBool True),
                        (''message'', JString (''Request failed: '' @ msg))]], True)
      | FetchResponse st statusText txt \<Rightarrow>
          if \<not> response_ok st then
            (let errorDetails =
                   (case txt of Some t \<Rightarrow> t | None \<Rightarrow> ''Status code: '' @ show_nat st)
             in ([ErrorFrame [(''error'', JBool True),
                              (''message'', JString (''API Error: '' @ statusText)),
                              (''details'', JString errorDetails)]], True))
          else relay_body reads failure
      | NullBody st statusText msg \<Rightarrow>
          if \<not> response_ok st then
            ([ErrorFrame [(''error'', JBool True),
                          (''message'', JString (''API Error: '' @ statusText)),
                          (''details'', JString [])]], True)
          else
            ([ErrorFrame [(''error'', JBool True),
                          (''message'', JString (''Request failed: '' @ msg))]], True))"

definition edge_handler ::
  "string option \<Rightarrow> http_request \<Rightarrow> fetch_result \<Rightarrow> string list \<Rightarrow> string option
     \<Rightarrow> response" where
  "edge_handler apiKey request fireworksResponse reads failure =
     (if req_method request = ''OPTIONS'' then
        plain_response 204
          [(''Access-Control-Allow-Origin'', ''*''),
           (''Access-Control-Allow-Methods'', ''GET, POST, OPTIONS''),
           (''Access-Control-Allow-Headers'', ''Content-Type, Authorization''),
           (''Access-Control-Max-Age'', ''86400'')] None
      else if req_method request \<noteq> ''POST'' then
        plain_response 405 (json_headers @ [(''Allow'', ''POST'')])
          (Some [(''error'', JString ''Method Not Allowed'')])
      else if falsy_key apiKey then
        plain_response 500 json_headers
          (Some [(''error'', JString ''API key not configured''),
                 (''message'', JString
                    ''Please set FIREWORKS_API_KEY in your Vercel environment variables'')])
      else
        (case req_body request of
           Malformed msg \<Rightarrow>
             plain_response 400 json_headers
               (Some [(''error'', JString ''Invalid JSON in request body''),
                      (''message'', JString msg)])
         | Nullish msg \<Rightarrow>
             plain_response 500 json_headers
               (Some [(''error'', JString ''Internal Server Error''),
                      (''message'', JString msg)])
         | Parsed requestBody \<Rightarrow>
             if \<not> truthy_string (model requestBody) then
               plain_response 400 json_headers
                 (Some [(''error'', JString ''Missing model parameter''),
                        (''message'', JString ''Model parameter is required'')])
             else
               (let (ws, closed) = edge_background fireworksResponse reads failure
                in \<lparr>resp_status = 200, resp_headers = edge_stream_headers,
                    resp_json = None, resp_writes = ws, resp_closed = closed,
                    upstream_request = Some (edge_normalize requestBody),
                    upstream_destroyed = False\<rparr>)))"

section \<open>The Node streaming handler\<close>

text \<open>
  The listeners registered on the upstream body and on the request, over the state of
  one session: the writes to \<open>res\<close>, whether \<open>res\<close> was ended, whether the upstream body
  may still emit events, and whether it was destroyed. A write after \<^verbatim>\<open>res.end()\<close> does
  not reach the client.
\<close>

record session =
  res_writes :: "sink_write list"
  res_ended :: bool
  api_flowing :: bool
  api_destroyed :: bool

definition res_write :: "sink_write \<Rightarrow> session \<Rightarrow> session" where
  "res_write w s = (if res_ended s then s else s\<lparr>res_writes := res_writes s @ [w]\<rparr>)"

definition res_end :: "session \<Rightarrow> session" where
  "res_end s = s\<lparr>res_ended := True\<rparr>"

definition error_frame :: "string \<Rightarrow> sink_write" where
  "error_frame msg = ErrorFrame [(''error'', JBool True), (''message'', JString msg)]"

definition on_data :: "string \<Rightarrow> session \<Rightarrow> session" where
  "on_data chunk s = res_write (RawChunk chunk) s"

definition on_end :: "session \<Rightarrow> session" where
  "on_end s = res_end (res_write DoneMarker s)"

definition on_error :: "string \<Rightarrow> session \<Rightarrow> session" where
  "on_error msg s = res_end (res_write DoneMarker (res_write (error_frame msg) s))"

definition on_close :: "session \<Rightarrow> session" where
  "on_close s = res_end (s\<lparr>api_flowing := False, api_destroyed := True\<rparr>)"

text \<open>
  The runtime's side. A readable stream emits \<open>data\<close>, \<open>end\<close> and \<open>error\<close> only while it
  is flowing, and it stops flowing once it has ended, failed or been destroyed.

  \<open>ClientGone pending\<close> is the client connection closing. The handler observes it only
  through \<^verbatim>\<open>req.on('close', ...)\<close>, which it registers after \<^verbatim>\<open>await fetch\<close>, and a request
  emits \<open>close\<close> once. \<open>pending\<close> says whether the request still has that event to emit
  when the connection closes. It has while the request stream is unread (and on Node
  before 16); on Node 16 and later the request emits \<open>close\<close> as soon as its body has been
  consumed, which supplying \<^verbatim>\<open>req.body\<close> requires, so there the event is gone before the
  listener exists and \<open>pending\<close> is false. Writes made after the connection closed are
  still recorded: the handler performs them.
\<close>

datatype stream_event = Data string | End | Error string | ClientGone bool

fun emit :: "stream_event \<Rightarrow> session \<Rightarrow> session" where
  "emit (Data chunk) s = (if api_flowing s then on_data chunk s else s)"
| "emit End s = (if api_flowing s then on_end (s\<lparr>api_flowing := False\<rparr>) else s)"
| "emit (Error msg) s = (if api_flowing s then on_error msg (s\<lparr>api_flowing := False\<rparr>) else s)"
| "emit (ClientGone pending) s = (if pending then on_close s else s)"

fun run_events :: "stream_event list \<Rightarrow> session \<Rightarrow> session" where
  "run_events [] s = s"
| "run_events (e # es) s = run_events es (emit e s)"

definition node_stream_headers :: "(string \<times> string) list" where
  "node_stream_headers =
     [(''Content-Type'', ''text/event-stream''),
      (''Cache-Control'', ''no-cache''),
      (''Connection'', ''keep-alive''),
      (''Access-Control-Allow-Origin'', ''*'')]"

text \<open>
  After the headers are flushed: \<^verbatim>\<open>fetch\<close>, the throw on a response that is not ok, the
  listeners, and the inner \<^verbatim>\<open>catch\<close>.
\<close>

definition node_relay :: "fetch_result \<Rightarrow> stream_event list \<Rightarrow> session" where
  "node_relay response events =
     (let start = \<lparr>res_writes = [], res_ended = False, api_flowing = False,
                   api_destroyed = False\<rparr>;
          catch = (\<lambda>msg. res_end (res_write DoneMarker (res_write (error_frame msg) start)))
      in case response of
           FetchRejects msg \<Rightarrow> catch msg
         | FetchResponse st statusText txt \<Rightarrow>
             if \<not> response_ok st
             then catch (''API Error: '' @ show_nat st @ '' '' @ statusText)
             else run_events events (start\<lparr>api_flowing := True\<rparr>)
         | NullBody st statusText msg \<Rightarrow>
             if \<not> response_ok st
             then catch (''API Error: '' @ show_nat st @ '' '' @ statusText)
             else run_events events (start\<lparr>api_flowing := True\<rparr>))"

definition node_handler ::
  "string option \<Rightarrow> http_request \<Rightarrow> fetch_result \<Rightarrow> stream_event list \<Rightarrow> response" where
  "node_handler apiKey req response events =
     (if req_method req = ''OPTIONS'' then
        plain_response 204
          [(''Access-Control-Allow-Origin'', ''*''),
           (''Access-Control-Allow-Headers'', ''Content-Type, Authorization''),
           (''Access-Control-Allow-Methods'', ''POST, OPTIONS'')] None
      else if req_method req \<noteq> ''POST'' then
        plain_response 405 (json_headers @ [(''Allow'', ''POST'')])
          (Some [(''error'', JString ''Method Not Allowed'')])
      else if falsy_key apiKey then
        plain_response 500 json_headers
          (Some [(''error'', JString ''API key not configured''),
                 (''message'', JString
                    ''Please set FIREWORKS_API_KEY in your Vercel environment variables'')])
      else
        (case req_body req of
           Malformed msg \<Rightarrow>
             plain_response 400 json_headers
               (Some [(''error'', JString ''Invalid JSON in request body''),
                      (''message'', JString msg)])
         | Nullish msg \<Rightarrow>
             plain_response 500 json_headers
               (Some [(''error'', JString (if msg \<noteq> [] then msg else ''Unknown error'')),
                      (''details'', JObject [(''name'', JString ''TypeError''),
                                             (''message'', JString msg)])])
         | Parsed requestBody \<Rightarrow>
             (let s = node_relay response events
              in \<lparr>resp_status = 200, resp_headers = node_stream_headers,
                  resp_json = None, resp_writes = res_writes s, resp_closed = res_ended s,
                  upstream_request = Some (cleanedParams requestBody),
                  upstream_destroyed = api_destroyed s\<rparr>)))"

text \<open>A POST request, and the session once the listeners are registered.\<close>

definition post :: "raw_body \<Rightarrow> http_request" where
  "post b = \<lparr>req_method = ''POST'', req_body = b\<rparr>"

definition listening :: session where
  "listening = \<lparr>res_writes = [], res_ended = False, api_flowing = True, api_destroyed = False\<rparr>"

section \<open>The claims in the words of the specification\<close>

text \<open>
  The non-empty lines of a stream, with "empty" read as the relay's per-line test reads
  it (whitespace only), and read literally (no characters).
\<close>

definition spec_nonblank_lines :: "string \<Rightarrow> string list" where
  "spec_nonblank_lines s = filter (\<lambda>l. js_trim l \<noteq> []) (split_nl s)"

definition spec_nonempty_lines :: "string \<Rightarrow> string list" where
  "spec_nonempty_lines s = filter (\<lambda>l. l \<noteq> []) (split_nl s)"

text \<open>The request of the specification's first scenario.\<close>

definition example_request :: body where
  "example_request =
     \<lparr>model = Val ''m'', messages = Val [(''user'', ''hi'')], max_tokens = Undefined,
      temperature = Undefined, top_p = Undefined, top_k = Undefined,
      presence_penalty = Undefined, frequency_penalty = Undefined, stream = Undefined\<rparr>"


section \<open>Properties of the line reassembly\<close>

lemma split_nl_not_Nil: "split_nl s \<noteq> []"
  by (induction s) auto

lemma split_nl_append:
  "split_nl (a @ b) = butlast (split_nl a) @ split_nl (last (split_nl a) @ b)"
proof (induction a)
  case Nil
  show ?case by simp
next
  case (Cons c cs)
  show ?case
  proof (cases "c = CHR 0x0A")
    case True
    with Cons show ?thesis by (simp add: split_nl_not_Nil)
  next
    case False
    show ?thesis
    proof (cases "split_nl cs")
      case Nil
      with split_nl_not_Nil show ?thesis by blast
    next
      case (Cons l ls)
      note sp = this
      show ?thesis
      proof (cases ls)
        case Nil
        with sp False Cons.IH show ?thesis by simp
      next
        case (Cons l' ls')
        with sp False Cons.IH show ?thesis by (simp add: split_nl_not_Nil)
      qed
    qed
  qed
qed

lemma process_lines_append:
  "process_lines (xs @ ys) = process_lines xs @ process_lines ys"
  by (induction xs) auto

lemma split_nl_no_newline:
  "CHR 0x0A \<notin> set s \<Longrightarrow> split_nl s = [s]"
  by (induction s) auto

lemma last_split_nl_no_newline:
  "CHR 0x0A \<notin> set (last (split_nl s))"
proof (induction s)
  case Nil
  show ?case by simp
next
  case (Cons c cs)
  show ?case
  proof (cases "split_nl cs")
    case Nil
    with split_nl_not_Nil show ?thesis by blast
  next
    case (Cons l ls)
    with Cons.IH show ?thesis by (cases ls) auto
  qed
qed

lemma read_loop_eq:
  "CHR 0x0A \<notin> set carry \<Longrightarrow>
   read_loop carry reads =
     (process_lines (butlast (split_nl (carry @ concat reads))),
      last (split_nl (carry @ concat reads)))"
proof (induction reads arbitrary: carry)
  case Nil
  then show ?case by (simp add: split_nl_no_newline)
next
  case (Cons v rs)
  let ?c = "last (split_nl (carry @ v))"
  have ih: "read_loop ?c rs =
      (process_lines (butlast (split_nl (?c @ concat rs))), last (split_nl (?c @ concat rs)))"
    by (rule Cons.IH) (rule last_split_nl_no_newline)
  have sp: "split_nl (carry @ v @ concat rs) =
      butlast (split_nl (carry @ v)) @ split_nl (?c @ concat rs)"
    using split_nl_append [of "carry @ v" "concat rs"] by simp
  show ?case
    by (simp add: Let_def ih sp butlast_append split_nl_not_Nil process_lines_append)
qed

lemma relay_body_done:
  "fst (relay_body reads None) =
     process_lines (butlast (split_nl (concat reads))) @
     flush_remaining (last (split_nl (concat reads))) @ [DoneMarker]"
  using read_loop_eq [of "[]" reads] by (simp add: relay_body_def)

lemma data_payloads_append: "data_payloads (xs @ ys) = data_payloads xs @ data_payloads ys"
  by (simp add: data_payloads_def)

lemma data_payloads_simps:
  "data_payloads [] = []" "data_payloads [Wrapped c] = [c]" "data_payloads [DoneMarker] = []"
  by (simp_all add: data_payloads_def)

lemma data_payloads_process_lines:
  "data_payloads (process_lines ls) = filter (\<lambda>l. js_trim l \<noteq> []) ls"
  by (induction ls) (auto simp: data_payloads_def)

text \<open>
  Claim C1, as amended. For every way of splitting an upstream text into reads, the lines
  carried by the data frames the relay emits on normal completion are: the terminated
  lines of the whole text that are not whitespace-only, in order, followed by the
  unterminated tail of the text when that tail has at least one character (even if it is
  whitespace only). The whole session depends on the concatenation of the reads only.
\<close>

theorem relay_split_invariance:
  "data_payloads (fst (relay_body reads None)) =
     filter (\<lambda>l. js_trim l \<noteq> []) (butlast (split_nl (concat reads))) @
     filter (\<lambda>l. l \<noteq> []) [last (split_nl (concat reads))]
   \<and> (concat reads' = concat reads \<longrightarrow> relay_body reads' None = relay_body reads None)"
proof
  show "data_payloads (fst (relay_body reads None)) =
     filter (\<lambda>l. js_trim l \<noteq> []) (butlast (split_nl (concat reads))) @
     filter (\<lambda>l. l \<noteq> []) [last (split_nl (concat reads))]"
    by (simp add: relay_body_done data_payloads_append data_payloads_process_lines
        flush_remaining_def data_payloads_simps)
next
  show "concat reads' = concat reads \<longrightarrow> relay_body reads' None = relay_body reads None"
  proof
    assume eq: "concat reads' = concat reads"
    have "fst (relay_body reads' None) = fst (relay_body reads None)"
      by (simp add: relay_body_done eq)
    moreover have "snd (relay_body rs None) = True" for rs
      by (simp add: relay_body_def split: prod.splits)
    ultimately show "relay_body reads' None = relay_body reads None"
      by (simp add: prod_eq_iff)
  qed
qed

theorem relay_split_invariance_witness:
  "concat [''data: x\<newline>\<newline>da'', ''ta: y\<newline>\<newline>''] = concat [''data: x\<newline>\<newline>data: y\<newline>\<newline>'']
   \<and> relay_body [''data: x\<newline>\<newline>da'', ''ta: y\<newline>\<newline>''] None = relay_body [''data: x\<newline>\<newline>data: y\<newline>\<newline>''] None
   \<and> data_payloads (fst (relay_body [''data: x\<newline>\<newline>da'', ''ta: y\<newline>\<newline>''] None)) = [''data: x'', ''data: y'']"
  using relay_split_invariance [of "[''data: x\<newline>\<newline>da'', ''ta: y\<newline>\<newline>'']" "[''data: x\<newline>\<newline>data: y\<newline>\<newline>'']"]
  by (simp add: js_trim_def is_js_whitespace_def)

text \<open>
  Claim C1 as stated fails under both readings of "non-empty line": an unterminated
  whitespace-only tail is emitted, and a terminated whitespace-only line is not.
\<close>

theorem nonempty_lines_counterexample:
  "data_payloads (fst (relay_body [''a\<newline> ''] None)) \<noteq> spec_nonblank_lines (concat [''a\<newline> ''])
   \<and> data_payloads (fst (relay_body ['' \<newline>b''] None)) \<noteq> spec_nonempty_lines (concat ['' \<newline>b''])"
  by (simp add: relay_body_def flush_remaining_def data_payloads_def spec_nonblank_lines_def
      spec_nonempty_lines_def js_trim_def is_js_whitespace_def startsWith_def)

lemma all_dropWhile: "(\<forall>c \<in> set (dropWhile P s). P c) \<longleftrightarrow> (\<forall>c \<in> set s. P c)"
  by (induction s) auto

lemma js_trim_eq_Nil: "js_trim s = [] \<longleftrightarrow> (\<forall>c \<in> set s. is_js_whitespace c)"
  by (simp add: js_trim_def dropWhile_eq_Nil_conv all_dropWhile)

lemma startsWith_data_not_blank:
  assumes "startsWith c ''data:''"
  shows "js_trim c \<noteq> []"
proof -
  from assms have h: "take (length ''data:'') c = ''data:''"
    by (simp only: startsWith_def)
  have "CHR ''d'' \<in> set ''data:''" by simp
  with h have "CHR ''d'' \<in> set (take (length ''data:'') c)" by (simp only:)
  then have "CHR ''d'' \<in> set c" by (rule in_set_takeD)
  moreover have "\<not> is_js_whitespace CHR ''d''" by (simp add: is_js_whitespace_def)
  ultimately show ?thesis by (auto simp: js_trim_eq_Nil)
qed

text \<open>
  Claim C10. When the upstream text ends in a non-empty unterminated line, the flush at
  end-of-data writes it with the prefix \<open>data: \<close> in front, whatever it starts with, and
  then the done marker; the per-line path would have forwarded a line that starts with
  \<open>data:\<close> without a second prefix.
\<close>

theorem flush_prepends_unconditionally:
  assumes "last (split_nl (concat reads)) = c" and "c \<noteq> []"
  shows "map bytes_of (fst (relay_body reads None)) =
           map bytes_of (process_lines (butlast (split_nl (concat reads)))) @
           [''data: '' @ c @ ''\<newline>\<newline>'', ''data: [DONE]\<newline>\<newline>'']
         \<and> (startsWith c ''data:'' \<longrightarrow> map bytes_of (process_lines [c]) = [c @ ''\<newline>\<newline>''])"
proof -
  have "startsWith c ''data:'' \<Longrightarrow> process_lines [c] = [Forwarded c]"
    by (simp add: startsWith_data_not_blank)
  with assms show ?thesis
    by (simp add: relay_body_done flush_remaining_def)
qed


theorem flush_prepends_unconditionally_witness:
  "last (split_nl (concat [''data: x''])) = ''data: x'' \<and> ''data: x'' \<noteq> [] \<and>
   startsWith ''data: x'' ''data:'' \<and>
   map bytes_of (fst (relay_body [''data: x''] None)) =
     [''data: data: x\<newline>\<newline>'', ''data: [DONE]\<newline>\<newline>''] \<and>
   map bytes_of (process_lines [''data: x'']) = [''data: x\<newline>\<newline>'']"
  using flush_prepends_unconditionally [of "[''data: x'']" "''data: x''"]
  by (simp add: startsWith_def)

section \<open>Properties of the normalizers\<close>

lemma clamp_Val: "clamp_max_tokens hi (Val x) = Val (min (max 1 x) hi)"
  by (simp add: clamp_max_tokens_def)

lemma clamp_Null: "clamp_max_tokens hi Null = Val (min 1 hi)"
  by (simp add: clamp_max_tokens_def)


lemma edge_max_tokens:
  "max_tokens (edge_normalize b) =
     (case max_tokens b of Undefined \<Rightarrow> Val 4008 | Null \<Rightarrow> Val 1
      | Val x \<Rightarrow> Val (min (max 1 x) 8192))"
  by (simp add: edge_normalize_def Let_def clamp_Val clamp_Null split: field.splits)

lemma cleanedParams_max_tokens:
  "max_tokens (cleanedParams b) =
     (case max_tokens b of Undefined \<Rightarrow> Val 4008 | Null \<Rightarrow> Val 4008
      | Val x \<Rightarrow> if x = 0 then Val 4008 else Val (min (max 1 x) 40000))"
  by (simp add: cleanedParams_def delete_nullish_def Let_def js_or_def clamp_Val
      split: field.splits)


text \<open>
  Claim C6 at the input 0 on the Node streaming path: \<^verbatim>\<open>requestBody.max_tokens || 4008\<close>
  takes 0 for an absent value, so 0 is sent as 4008 while \<open>-1\<close> is clamped to 1; the
  edge path, which tests \<^verbatim>\<open>=== undefined\<close>, sends 1.
\<close>

theorem max_tokens_zero_on_node_path:
  "max_tokens (cleanedParams (example_request\<lparr>max_tokens := Val 0\<rparr>)) = Val 4008 \<and>
   max_tokens (cleanedParams (example_request\<lparr>max_tokens := Val (- 1)\<rparr>)) = Val 1 \<and>
   max_tokens (edge_normalize (example_request\<lparr>max_tokens := Val 0\<rparr>)) = Val 1"
  by (simp add: cleanedParams_max_tokens edge_max_tokens example_request_def)

lemma max_tokens_examples:
  "max_tokens (edge_normalize example_request) = Val 4008"
  "max_tokens (cleanedParams example_request) = Val 4008"
  "max_tokens (edge_normalize (example_request\<lparr>max_tokens := Val 999999\<rparr>)) = Val 8192"
  "max_tokens (cleanedParams (example_request\<lparr>max_tokens := Val 999999\<rparr>)) = Val 40000"
  "max_tokens (edge_normalize (example_request\<lparr>max_tokens := Val 500\<rparr>)) = Val 500"
  "max_tokens (cleanedParams (example_request\<lparr>max_tokens := Val 500\<rparr>)) = Val 500"
  by (simp_all add: cleanedParams_max_tokens edge_max_tokens example_request_def)








section \<open>Properties of the handlers\<close>

text \<open>
  Once the upstream body has stopped flowing and the response is ended, no event writes
  anything.
\<close>

lemma run_events_stopped:
  "\<not> api_flowing s \<Longrightarrow> res_ended s \<Longrightarrow>
   res_writes (run_events evs s) = res_writes s \<and> res_ended (run_events evs s) \<and>
   \<not> api_flowing (run_events evs s) \<and>
   (api_destroyed s \<longrightarrow> api_destroyed (run_events evs s))"
proof (induction evs arbitrary: s)
  case Nil
  then show ?case by simp
next
  case (Cons e es)
  have "\<not> api_flowing (emit e s) \<and> res_ended (emit e s) \<and>
        res_writes (emit e s) = res_writes s \<and> (api_destroyed s \<longrightarrow> api_destroyed (emit e s))"
    using Cons.prems by (cases e) (simp_all add: on_close_def res_end_def)
  with Cons.IH [of "emit e s"] show ?case by simp
qed

lemma run_events_data:
  "api_flowing s \<Longrightarrow> \<not> res_ended s \<Longrightarrow>
   run_events (map Data cs @ evs) s =
     run_events evs (s\<lparr>res_writes := res_writes s @ map RawChunk cs\<rparr>)"
proof (induction cs arbitrary: s)
  case Nil
  then show ?case by simp
next
  case (Cons c cs)
  have "run_events (map Data (c # cs) @ evs) s =
        run_events (map Data cs @ evs) (s\<lparr>res_writes := res_writes s @ [RawChunk c]\<rparr>)"
    using Cons.prems by (simp add: on_data_def res_write_def)
  also have "\<dots> = run_events evs
      (s\<lparr>res_writes := res_writes s @ [RawChunk c]\<rparr>
        \<lparr>res_writes := res_writes (s\<lparr>res_writes := res_writes s @ [RawChunk c]\<rparr>) @ map RawChunk cs\<rparr>)"
    using Cons.prems by (intro Cons.IH) simp_all
  finally show ?case by simp
qed

lemma node_relay_ok:
  "response_ok st \<Longrightarrow> node_relay (FetchResponse st txt body) evs = run_events evs listening"
  by (simp add: node_relay_def listening_def)

text \<open>
  The ways a Node session ends after the chunks \<open>cs\<close>. When the close listener receives
  the client's disconnect, the session is final at once: nothing more is read from the
  upstream or written, whatever events follow.
\<close>

lemma run_events_final:
  "\<not> api_flowing s \<Longrightarrow> res_ended s \<Longrightarrow> api_destroyed s \<Longrightarrow> run_events evs s = s"
proof (induction evs)
  case Nil
  show ?case by simp
next
  case (Cons e es)
  from Cons.prems have "emit e s = s"
    by (cases e) (simp_all add: on_close_def res_end_def)
  with Cons show ?case by simp
qed

lemma close_listener_cancels:
  "run_events (map Data cs @ ClientGone True # rest) listening =
     \<lparr>res_writes = map RawChunk cs, res_ended = True, api_flowing = False,
      api_destroyed = True\<rparr>"
proof -
  let ?s = "on_close (listening\<lparr>res_writes := res_writes listening @ map RawChunk cs\<rparr>)"
  have s: "?s = \<lparr>res_writes = map RawChunk cs, res_ended = True, api_flowing = False,
      api_destroyed = True\<rparr>"
    by (simp add: on_close_def res_end_def listening_def)
  have "run_events (map Data cs @ ClientGone True # rest) listening = run_events rest ?s"
    by (subst run_events_data) (simp_all add: listening_def)
  also have "\<dots> = ?s"
    by (rule run_events_final) (simp_all add: s)
  finally show ?thesis by (simp only: s)
qed

text \<open>
  When the request has no close event left to emit, the disconnect reaches no listener:
  the session runs as if the client were still there.
\<close>

lemma client_gone_unobserved:
  "run_events (filter (\<lambda>e. e \<noteq> ClientGone False) evs) s = run_events evs s"
  by (induction evs arbitrary: s) simp_all

lemma node_end:
  "res_writes (run_events (map Data cs @ End # rest) listening) = map RawChunk cs @ [DoneMarker] \<and>
   res_ended (run_events (map Data cs @ End # rest) listening)"
proof -
  let ?s = "on_end (listening\<lparr>res_writes := res_writes listening @ map RawChunk cs, api_flowing := False\<rparr>)"
  have "run_events (map Data cs @ End # rest) listening = run_events rest ?s"
    by (subst run_events_data) (simp_all add: listening_def)
  moreover have "\<not> api_flowing ?s" "res_ended ?s"
      "res_writes ?s = map RawChunk cs @ [DoneMarker]"
    by (simp_all add: on_end_def res_end_def res_write_def listening_def)
  ultimately show ?thesis using run_events_stopped [of ?s rest] by simp
qed

lemma node_error:
  "res_writes (run_events (map Data cs @ Error msg # rest) listening) =
     map RawChunk cs @ [error_frame msg, DoneMarker] \<and>
   res_ended (run_events (map Data cs @ Error msg # rest) listening)"
proof -
  let ?s = "on_error msg (listening\<lparr>res_writes := res_writes listening @ map RawChunk cs, api_flowing := False\<rparr>)"
  have "run_events (map Data cs @ Error msg # rest) listening = run_events rest ?s"
    by (subst run_events_data) (simp_all add: listening_def)
  moreover have "\<not> api_flowing ?s" "res_ended ?s"
      "res_writes ?s = map RawChunk cs @ [error_frame msg, DoneMarker]"
    by (simp_all add: on_error_def res_end_def res_write_def listening_def)
  ultimately show ?thesis using run_events_stopped [of ?s rest] by simp
qed


text \<open>The edge relay when a read throws, for every stream.\<close>

lemma relay_body_failure:
  "fst (relay_body reads (Some msg)) =
     process_lines (butlast (split_nl (concat reads))) @ [stream_error_frame msg]"
  using read_loop_eq [of "[]" reads] by (simp add: relay_body_def)

lemma DoneMarker_notin_process_lines: "DoneMarker \<notin> set (process_lines ls)"
  by (induction ls) auto

lemma relay_body_failure_no_done:
  "DoneMarker \<notin> set (fst (relay_body reads (Some msg)))"
  by (simp add: relay_body_failure DoneMarker_notin_process_lines stream_error_frame_def)

text \<open>
  The edge relay on an ok response without a body: the outer \<^verbatim>\<open>catch\<close> reports the
  \<open>TypeError\<close> and closes the sink, again without a done marker.
\<close>

lemma edge_null_body:
  "response_ok st \<Longrightarrow>
   edge_background (NullBody st statusText msg) reads failure =
     ([ErrorFrame [(''error'', JBool True),
                   (''message'', JString (''Request failed: '' @ msg))]], True)"
  by (simp add: edge_background_def)

lemma node_handler_streams:
  "\<not> falsy_key apiKey \<Longrightarrow>
   node_handler apiKey (post (Parsed b)) fr evs =
     \<lparr>resp_status = 200, resp_headers = node_stream_headers, resp_json = None,
      resp_writes = res_writes (node_relay fr evs), resp_closed = res_ended (node_relay fr evs),
      upstream_request = Some (cleanedParams b),
      upstream_destroyed = api_destroyed (node_relay fr evs)\<rparr>"
  by (simp add: node_handler_def post_def Let_def)

lemma edge_handler_streams:
  "\<not> falsy_key apiKey \<Longrightarrow> truthy_string (model b) \<Longrightarrow>
   edge_handler apiKey (post (Parsed b)) fr reads failure =
     \<lparr>resp_status = 200, resp_headers = edge_stream_headers, resp_json = None,
      resp_writes = fst (edge_background fr reads failure),
      resp_closed = snd (edge_background fr reads failure),
      upstream_request = Some (edge_normalize b), upstream_destroyed = False\<rparr>"
  by (simp add: edge_handler_def post_def split: prod.splits)

text \<open>
  Claim C5 at a disconnect after the first chunk, on a request that has already emitted
  its close event (Node 16 and later, request body consumed): the close listener never
  runs, so the handler goes on reading the upstream, performs the writes of both chunks
  and of the done marker, and never destroys the upstream. When the listener does
  receive the event, the same session stops after the first chunk, as the claim says.
\<close>

theorem client_disconnect_not_observed:
  "resp_writes (node_handler (Some ''k'') (post (Parsed example_request))
      (FetchResponse 200 ''OK'' None)
      [Data ''data: a\<newline>\<newline>'', ClientGone False, Data ''data: b\<newline>\<newline>'', End]) =
     [RawChunk ''data: a\<newline>\<newline>'', RawChunk ''data: b\<newline>\<newline>'', DoneMarker] \<and>
   \<not> upstream_destroyed (node_handler (Some ''k'') (post (Parsed example_request))
      (FetchResponse 200 ''OK'' None)
      [Data ''data: a\<newline>\<newline>'', ClientGone False, Data ''data: b\<newline>\<newline>'', End]) \<and>
   node_relay (FetchResponse 200 ''OK'' None)
      [Data ''data: a\<newline>\<newline>'', ClientGone False] =
     \<lparr>res_writes = [RawChunk ''data: a\<newline>\<newline>''], res_ended = False, api_flowing = True,
      api_destroyed = False\<rparr> \<and>
   node_relay (FetchResponse 200 ''OK'' None)
      [Data ''data: a\<newline>\<newline>'', ClientGone True, Data ''data: b\<newline>\<newline>'', End] =
     \<lparr>res_writes = [RawChunk ''data: a\<newline>\<newline>''], res_ended = True, api_flowing = False,
      api_destroyed = True\<rparr>"
  by (simp add: node_handler_streams falsy_key_def node_relay_def response_ok_def
      on_data_def on_end_def on_close_def res_write_def res_end_def)

text \<open>
  Claim C4 as stated fails in both streaming handlers: at an upstream status 500 the
  caller's response has status 200 and the \<open>text/event-stream\<close> content type.
\<close>

theorem non_ok_status_counterexample:
  "\<not> (resp_status (node_handler (Some ''k'') (post (Parsed example_request))
          (FetchResponse 500 ''Internal Server Error'' (Some ''oops'')) []) = 500 \<and>
       (''Content-Type'', ''text/event-stream'') \<notin>
         set (resp_headers (node_handler (Some ''k'') (post (Parsed example_request))
           (FetchResponse 500 ''Internal Server Error'' (Some ''oops'')) []))) \<and>
   \<not> (resp_status (edge_handler (Some ''k'') (post (Parsed example_request))
          (FetchResponse 500 ''Internal Server Error'' (Some ''oops'')) [] None) = 500 \<and>
       (''Content-Type'', ''text/event-stream'') \<notin>
         set (resp_headers (edge_handler (Some ''k'') (post (Parsed example_request))
           (FetchResponse 500 ''Internal Server Error'' (Some ''oops'')) [] None)))"
  by (simp add: node_handler_streams edge_handler_streams falsy_key_def example_request_def)

text \<open>
  Claim C4, as amended. Both streaming handlers commit the \<open>text/event-stream\<close> headers
  (status 200) before they call the upstream. When the upstream answers with a status
  outside 200..299, the caller receives one in-stream error frame and the response is
  ended: in the Node handler the message carries the status code and status text and the
  done marker follows; in the edge handler the frame carries the status text and the
  upstream's body text (or the status code when the body cannot be read).
\<close>

theorem non_ok_status_in_stream:
  assumes "\<not> falsy_key apiKey" and "\<not> response_ok st"
  shows "node_handler apiKey (post (Parsed b)) (FetchResponse st statusText txt) evs =
           \<lparr>resp_status = 200, resp_headers = node_stream_headers, resp_json = None,
            resp_writes = [error_frame (''API Error: '' @ show_nat st @ '' '' @ statusText),
                           DoneMarker],
            resp_closed = True, upstream_request = Some (cleanedParams b),
            upstream_destroyed = False\<rparr>
       \<and> (''Content-Type'', ''text/event-stream'') \<in> set node_stream_headers
       \<and> (truthy_string (model b) \<longrightarrow>
            edge_handler apiKey (post (Parsed b)) (FetchResponse st statusText txt) reads failure =
              \<lparr>resp_status = 200, resp_headers = edge_stream_headers, resp_json = None,
               resp_writes =
                 [ErrorFrame [(''error'', JBool True),
                    (''message'', JString (''API Error: '' @ statusText)),
                    (''details'', JString (case txt of Some t \<Rightarrow> t
                                          | None \<Rightarrow> ''Status code: '' @ show_nat st))]],
               resp_closed = True, upstream_request = Some (edge_normalize b),
               upstream_destroyed = False\<rparr>)
       \<and> (''Content-Type'', ''text/event-stream'') \<in> set edge_stream_headers"
  using assms
  by (simp add: node_handler_streams edge_handler_streams node_relay_def edge_background_def
      res_end_def res_write_def node_stream_headers_def edge_stream_headers_def
      del: show_nat.simps)

lemma show_nat_503: "show_nat 503 = ''503''"
  by code_simp

theorem non_ok_status_in_stream_witness:
  "\<not> falsy_key (Some ''k'') \<and> \<not> response_ok 503 \<and> truthy_string (model example_request) \<and>
   resp_status (node_handler (Some ''k'') (post (Parsed example_request))
      (FetchResponse 503 ''Service Unavailable'' (Some ''busy'')) []) = 200 \<and>
   resp_writes (node_handler (Some ''k'') (post (Parsed example_request))
      (FetchResponse 503 ''Service Unavailable'' (Some ''busy'')) []) =
     [error_frame ''API Error: 503 Service Unavailable'', DoneMarker] \<and>
   resp_status (edge_handler (Some ''k'') (post (Parsed example_request))
      (FetchResponse 503 ''Service Unavailable'' (Some ''busy'')) [] None) = 200 \<and>
   resp_writes (edge_handler (Some ''k'') (post (Parsed example_request))
      (FetchResponse 503 ''Service Unavailable'' (Some ''busy'')) [] None) =
     [ErrorFrame [(''error'', JBool True), (''message'', JString ''API Error: Service Unavailable''),
        (''details'', JString ''busy'')]]"
  using non_ok_status_in_stream [of "Some ''k''" 503 example_request "''Service Unavailable''"
      "Some ''busy''" "[]" "[]" None]
  by (simp add: falsy_key_def response_ok_def example_request_def show_nat_503
      del: show_nat.simps)


text \<open>
  Claim C8 as stated fails: the edge handler accepts a body without \<open>messages\<close>, and the
  Node handler accepts a body without \<open>model\<close>; both contact the upstream.
\<close>

theorem missing_messages_counterexample:
  "\<not> (resp_status (edge_handler (Some ''k'')
           (post (Parsed (example_request\<lparr>messages := Undefined\<rparr>)))
           (FetchResponse 200 ''OK'' None) [] None) = 400 \<and>
       upstream_request (edge_handler (Some ''k'')
           (post (Parsed (example_request\<lparr>messages := Undefined\<rparr>)))
           (FetchResponse 200 ''OK'' None) [] None) = None) \<and>
   \<not> (resp_status (node_handler (Some ''k'')
           (post (Parsed (example_request\<lparr>model := Undefined\<rparr>)))
           (FetchResponse 200 ''OK'' None) []) = 400 \<and>
       upstream_request (node_handler (Some ''k'')
           (post (Parsed (example_request\<lparr>model := Undefined\<rparr>)))
           (FetchResponse 200 ''OK'' None) []) = None)"
  by (simp add: node_handler_streams edge_handler_streams falsy_key_def example_request_def)

text \<open>
  Claim C8, as amended. With a configured key, a POST whose body does not parse is
  answered 400 by both streaming handlers without contacting the upstream, and so is, in
  the edge handler, a body whose \<open>model\<close> is missing, null or empty. Every other parsed
  body is accepted: the edge handler never looks at \<open>messages\<close>, and the Node handler
  checks neither field.
\<close>

theorem invalid_request_rejections:
  assumes "\<not> falsy_key apiKey"
  shows "resp_status (edge_handler apiKey (post (Malformed msg)) fr reads failure) = 400
       \<and> upstream_request (edge_handler apiKey (post (Malformed msg)) fr reads failure) = None
       \<and> resp_status (node_handler apiKey (post (Malformed msg)) fr evs) = 400
       \<and> upstream_request (node_handler apiKey (post (Malformed msg)) fr evs) = None
       \<and> (\<not> truthy_string (model b) \<longrightarrow>
            resp_status (edge_handler apiKey (post (Parsed b)) fr reads failure) = 400 \<and>
            upstream_request (edge_handler apiKey (post (Parsed b)) fr reads failure) = None)
       \<and> (truthy_string (model b) \<longrightarrow>
            resp_status (edge_handler apiKey (post (Parsed b)) fr reads failure) = 200 \<and>
            upstream_request (edge_handler apiKey (post (Parsed b)) fr reads failure) =
              Some (edge_normalize b))
       \<and> resp_status (node_handler apiKey (post (Parsed b)) fr evs) = 200
       \<and> upstream_request (node_handler apiKey (post (Parsed b)) fr evs) =
            Some (cleanedParams b)"
  using assms
  by (simp add: node_handler_streams edge_handler_streams)
    (simp add: node_handler_def edge_handler_def post_def plain_response_def)

theorem invalid_request_rejections_witness:
  "\<not> falsy_key (Some ''k'') \<and>
   \<not> truthy_string (model (example_request\<lparr>model := Val []\<rparr>)) \<and>
   resp_status (edge_handler (Some ''k'') (post (Malformed ''Unexpected token''))
      (FetchResponse 200 ''OK'' None) [] None) = 400 \<and>
   resp_status (node_handler (Some ''k'') (post (Malformed ''Unexpected token''))
      (FetchResponse 200 ''OK'' None) []) = 400 \<and>
   resp_status (edge_handler (Some ''k'') (post (Parsed (example_request\<lparr>model := Val []\<rparr>)))
      (FetchResponse 200 ''OK'' None) [] None) = 400 \<and>
   upstream_request (edge_handler (Some ''k'')
      (post (Parsed (example_request\<lparr>model := Val []\<rparr>)))
      (FetchResponse 200 ''OK'' None) [] None) = None"
  using invalid_request_rejections [of "Some ''k''" "''Unexpected token''"
      "FetchResponse 200 ''OK'' None" "[]" None "[]" "example_request\<lparr>model := Val []\<rparr>"]
  by (simp add: falsy_key_def example_request_def)

text \<open>
  Claim C2 at an upstream read that throws after one line, and at a rejected fetch: the
  edge handler closes the sink without a done marker, where the Node handler writes
  exactly one.
\<close>

theorem edge_error_paths_without_done:
  "resp_writes (edge_handler (Some ''k'') (post (Parsed example_request))
      (FetchResponse 200 ''OK'' None) [''data: a\<newline>''] (Some ''boom'')) =
     [Forwarded ''data: a'', stream_error_frame ''boom''] \<and>
   resp_closed (edge_handler (Some ''k'') (post (Parsed example_request))
      (FetchResponse 200 ''OK'' None) [''data: a\<newline>''] (Some ''boom'')) \<and>
   count_list (resp_writes (edge_handler (Some ''k'') (post (Parsed example_request))
      (FetchResponse 200 ''OK'' None) [''data: a\<newline>''] (Some ''boom''))) DoneMarker = 0 \<and>
   count_list (resp_writes (edge_handler (Some ''k'') (post (Parsed example_request))
      (FetchRejects ''connect failed'') [] None)) DoneMarker = 0 \<and>
   count_list (resp_writes (node_handler (Some ''k'') (post (Parsed example_request))
      (FetchResponse 200 ''OK'' None) [Data ''data: a\<newline>'', Error ''boom''])) DoneMarker = 1 \<and>
   count_list (resp_writes (node_handler (Some ''k'') (post (Parsed example_request))
      (FetchRejects ''connect failed'') [])) DoneMarker = 1"
  by (simp add: node_handler_streams edge_handler_streams falsy_key_def example_request_def
      edge_background_def relay_body_def response_ok_def node_relay_def
      res_end_def res_write_def on_data_def on_error_def
      stream_error_frame_def error_frame_def js_trim_def is_js_whitespace_def startsWith_def)

text \<open>
  Claim C3 at a transport error after one complete frame and one partial line: the edge
  relay's last write is the error frame, with no done marker after it (and the partial
  line is lost); the Node relay writes the error frame and then the done marker.
\<close>

theorem edge_stream_error_without_done:
  "relay_body [''data: a\<newline>\<newline>'', ''data: b''] (Some ''reset'') =
     ([Forwarded ''data: a'', stream_error_frame ''reset''], True) \<and>
   res_writes (node_relay (FetchResponse 200 ''OK'' None)
      [Data ''data: a\<newline>\<newline>'', Data ''data: b'', Error ''reset'']) =
     [RawChunk ''data: a\<newline>\<newline>'', RawChunk ''data: b'', error_frame ''reset'', DoneMarker]"
  by (simp add: relay_body_def response_ok_def node_relay_def
      res_end_def res_write_def on_data_def on_error_def
      js_trim_def is_js_whitespace_def startsWith_def)

end
